theory Spec2Isabelle
  imports Main "HOL-Library.Multiset"
begin

section \<open>The batching queue of queue.go\<close>

text \<open>
  The package keeps one \<open>Queue\<close> value: a buffer of pending payloads, a size threshold,
  an age threshold and a counter of running work routines. \<open>Append\<close> stores a payload
  and, when the buffer is full or too old, hands the whole buffer to \<open>Run\<close> in a new
  goroutine. \<open>Close\<close> waits for the counter to fall to zero.

  Every method is embedded as a function from the queue before the call to the queue
  after it. What a method reads from outside (the clock, the random tag) is a
  parameter; what it does to the outside (calls of the event feed, goroutines it
  starts, the error it returns) is part of the result.
\<close>

subsection \<open>Time\<close>

text \<open>
  An instant is a number of nanoseconds. \<open>time.Duration\<close> is a signed 64-bit count of
  nanoseconds, so \<open>time.Duration(q.MaxAge) * time.Second\<close> wraps around: \<open>seconds\<close>
  writes the wrap-around out. \<open>After\<close> is \<open>time.Time.After\<close>.
\<close>

type_synonym time = int

definition seconds :: "int \<Rightarrow> int" where
  "seconds n = (n * 1000000000 + 2 ^ 63) mod 2 ^ 64 - 2 ^ 63"

definition After :: "time \<Rightarrow> time \<Rightarrow> bool" where
  "After t u = (u < t)"

subsection \<open>Decimal rendering\<close>

text \<open>\<open>strconv.Itoa\<close>: the decimal digits of an integer, with a minus sign when negative.\<close>

function digits :: "nat \<Rightarrow> string" where
  "digits n = (if n < 10 then [char_of (48 + n)]
               else digits (n div 10) @ [char_of (48 + n mod 10)])"
  by pat_completeness auto
termination
  by (relation "measure id") auto

declare digits.simps [simp del]

definition Itoa :: "int \<Rightarrow> string" where
  "Itoa i = (if i < 0 then CHR ''-'' # digits (nat (- i)) else digits (nat i))"

subsection \<open>Payloads and the queue\<close>

text \<open>
  Modelled from the spec: the declaration of \<open>Payload\<close> is not in queue.go. The spec
  gives it an identifier (a string) and opaque data, and the file uses just these two
  fields, \<open>Id\<close> and \<open>Data\<close>. The data is Go's \<open>interface{}\<close>, \<open>None\<close> being \<open>nil\<close>.
  \<open>Payload{}\<close>, the value the age monitor appends, has the empty identifier.
\<close>

record 'd Payload =
  Id :: string
  Data :: "'d option"

definition zeroPayload :: "'d Payload" where
  "zeroPayload = \<lparr>Id = [], Data = None\<rparr>"

text \<open>A channel field is nil, open or closed; closing a closed channel panics.\<close>

datatype chan = NilChan | OpenChan | ClosedChan

text \<open>
  The fields of \<open>Queue\<close>, under their names in the source (the mutex is the atomicity
  of the steps below). \<open>Work\<close> and \<open>EventFeed\<close> are \<open>None\<close> when nil. \<open>fed\<close> is not
  a field: it lists the strings \<open>EventFeed\<close> has been called with, oldest first.

  Modelled from the spec: the types of \<open>Work\<close> and \<open>EventFeed\<close> are not declared in
  queue.go. The spec gives the first as a mapping from the ordered sequence of opaque
  data to an integer status code and the second as a mapping from a string to no
  result; lines 100 and 150 call them so.

  \<open>MaxSize\<close>, \<open>MaxAge\<close> and \<open>activeWork\<close> are Go \<open>int\<close>s. The source compares
  \<open>MaxSize\<close>, multiplies \<open>MaxAge\<close> (see \<open>seconds\<close>) and moves \<open>activeWork\<close> by one
  per running goroutine, far from the bounds of the type, so they are integers here.
\<close>

record 'd Queue =
  Tag :: string
  MaxSize :: int
  MaxAge :: int
  Work :: "('d option list \<Rightarrow> int) option"
  EventFeed :: "(string \<Rightarrow> unit) option"
  payloadQueue :: "'d Payload list"
  payloadChan :: chan
  quitChan :: chan
  expires :: time
  activeWork :: int
  fed :: "string list"

text \<open>\<open>errors.New\<close>.\<close>

datatype error = ErrorString string

text \<open>What a \<open>go\<close> statement starts.\<close>

datatype 'd task = RunTask "'d Payload list" | AgeMonitor | Intake

text \<open>
  The result of a call: the queue after it, the goroutines it started, in order, and
  the error it returned (\<open>None\<close> for nil).
\<close>

record 'd outcome =
  st :: "'d Queue"
  spawned :: "'d task list"
  err :: "error option"

subsection \<open>event and Size\<close>

definition event :: "string \<Rightarrow> 'd Queue \<Rightarrow> 'd Queue" where
  "event s q =
     (case EventFeed q of
        None \<Rightarrow> q
      | Some f \<Rightarrow> q\<lparr>fed := fed q @ [''['' @ Tag q @ ''] '' @ s]\<rparr>)"

definition Size :: "'d Queue \<Rightarrow> int" where
  "Size q = int (length (payloadQueue q))"

subsection \<open>Start\<close>

text \<open>
  Modelled from the spec: \<open>defaultTag\<close> is called by \<open>Start\<close> and is not in queue.go.
  The spec gives the default tag as a random 12-character string; \<open>rnd\<close> is the random
  source, one character per position.
\<close>

definition defaultTag :: "(nat \<Rightarrow> char) \<Rightarrow> nat \<Rightarrow> string" where
  "defaultTag rnd n = map rnd [0..<n]"

text \<open>
  \<open>Start\<close> at clock reading \<open>now\<close>. The first statement sets \<open>expires\<close> from the
  \<open>MaxAge\<close> the caller gave, before the nil test and before the defaults. The two
  goroutines it starts are the age monitor (every two seconds, \<open>Append(Payload{})\<close> when
  the clock is after \<open>expires\<close>) and the intake (\<open>Append\<close> of what \<open>payloadChan\<close>
  delivers, \<open>Close\<close> on \<open>quitChan\<close>).
\<close>

definition Start :: "time \<Rightarrow> (nat \<Rightarrow> char) \<Rightarrow> 'd Queue \<Rightarrow> 'd outcome" where
  "Start now rnd q =
     (let q1 = q\<lparr>expires := now + seconds (MaxAge q)\<rparr> in
      if Work q1 = None
      then \<lparr>st = q1, spawned = [],
            err = Some (ErrorString ''the Work function is not supplied'')\<rparr>
      else
        let q2 = (if MaxSize q1 = 0
                  then event ''MaxSize: Default value of 100 was used'' (q1\<lparr>MaxSize := 100\<rparr>)
                  else q1);
            q3 = (if MaxAge q2 = 0
                  then event ''MaxAge: Default value of 10 was used'' (q2\<lparr>MaxAge := 10\<rparr>)
                  else q2);
            q4 = (if Tag q3 = []
                  then event (''Tag: Random value assigned is: '' @ defaultTag rnd 12)
                         (q3\<lparr>Tag := defaultTag rnd 12\<rparr>)
                  else q3);
            q5 = q4\<lparr>activeWork := 0\<rparr>
        in \<lparr>st = event ''BP Queue: Started'' q5, spawned = [AgeMonitor, Intake],
            err = None\<rparr>)"

subsection \<open>Run\<close>

text \<open>
  \<open>Run\<close> in two halves, since other goroutines run while \<open>Work\<close> does: \<open>RunEnter\<close>
  is lines 94 to 95 (the event and \<open>activeWork++\<close>), \<open>RunExit\<close> lines 101 to 102 (the
  event with the result code and \<open>activeWork--\<close>). \<open>render\<close> is \<open>Time.String\<close>.
\<close>

definition RunEnter :: "(time \<Rightarrow> string) \<Rightarrow> time \<Rightarrow> 'd Payload list \<Rightarrow> 'd Queue \<Rightarrow> 'd Queue" where
  "RunEnter render now ps q =
     (let q1 = event (''Batch Push ['' @ Tag q @ '']: Running. Queue Size: ''
                      @ Itoa (int (length ps)) @ '' @ '' @ render now) q
      in q1\<lparr>activeWork := activeWork q1 + 1\<rparr>)"

definition RunExit :: "(time \<Rightarrow> string) \<Rightarrow> time \<Rightarrow> int \<Rightarrow> 'd Queue \<Rightarrow> 'd Queue" where
  "RunExit render now result q =
     (let q1 = event (''Batch Push ['' @ Tag q @ '']: Finished. Result Code: ''
                      @ Itoa result @ '' @ '' @ render now) q
      in q1\<lparr>activeWork := activeWork q1 - 1\<rparr>)"

text \<open>\<open>Run\<close> called as a function, nothing else running: clock readings \<open>now\<close>, \<open>now'\<close>.\<close>

definition Run :: "(time \<Rightarrow> string) \<Rightarrow> time \<Rightarrow> time \<Rightarrow> 'd Payload list \<Rightarrow> 'd Queue \<Rightarrow> 'd outcome" where
  "Run render now now' ps q =
     (case Work q of
        None \<Rightarrow> \<lparr>st = q, spawned = [], err = Some (ErrorString ''no Work() is passed'')\<rparr>
      | Some w \<Rightarrow>
          \<lparr>st = RunExit render now' (w (map Data ps)) (RunEnter render now ps q),
           spawned = [], err = None\<rparr>)"

subsection \<open>Append\<close>

text \<open>
  \<open>Append\<close> in its three parts. \<open>store\<close> is lines 110 to 115: the append under the
  mutex, then the event. \<open>due\<close> is the condition of line 119, read with no lock held.
  \<open>flush\<close> is lines 120 to 126: under the mutex the buffer is handed to a new \<open>Run\<close>
  goroutine and reset to nil; then \<open>expires\<close> is set from a new clock reading.
\<close>

definition store :: "'d Payload \<Rightarrow> 'd Queue \<Rightarrow> 'd Queue" where
  "store p q =
     (if Id p \<noteq> []
      then event (''Payload Queued [id]: '' @ Id p) (q\<lparr>payloadQueue := payloadQueue q @ [p]\<rparr>)
      else q)"

definition due :: "time \<Rightarrow> 'd Queue \<Rightarrow> bool" where
  "due now q = (MaxSize q \<le> int (length (payloadQueue q)) \<or> After now (expires q))"

definition flush :: "time \<Rightarrow> 'd Queue \<Rightarrow> 'd outcome" where
  "flush now q =
     \<lparr>st = q\<lparr>payloadQueue := [], expires := now + seconds (MaxAge q)\<rparr>,
      spawned = [RunTask (payloadQueue q)], err = None\<rparr>"

text \<open>
  \<open>Append\<close> called with nothing else running. \<open>now\<close> is the clock at line 119, \<open>now'\<close>
  at line 126.
\<close>

definition Append :: "time \<Rightarrow> time \<Rightarrow> 'd Payload \<Rightarrow> 'd Queue \<Rightarrow> 'd outcome" where
  "Append now now' p q =
     (let q1 = store p q in
      if due now q1 then flush now' q1
      else \<lparr>st = q1, spawned = [], err = None\<rparr>)"

text \<open>
  A caller that submits one payload after another, each call returning before the next
  (the intake's loop does so): the queue at the end and the batches handed to \<open>Run\<close>,
  in the order of their \<open>go\<close> statements. A submission is the two clock readings of
  its call and its payload.
\<close>

type_synonym 'd submission = "time \<times> time \<times> 'd Payload"

definition payloadOf :: "'d submission \<Rightarrow> 'd Payload" where
  "payloadOf s = snd (snd s)"

fun batches :: "'d task list \<Rightarrow> 'd Payload list list" where
  "batches [] = []"
| "batches (RunTask ps # ts) = ps # batches ts"
| "batches (t # ts) = batches ts"

fun Appends :: "'d submission list \<Rightarrow> 'd Queue \<Rightarrow> 'd Queue \<times> 'd Payload list list" where
  "Appends [] q = (q, [])"
| "Appends (s # rest) q =
     (let r = Append (fst s) (fst (snd s)) (payloadOf s) q;
          r' = Appends rest (st r)
      in (fst r', batches (spawned r) @ snd r'))"

text \<open>
  No submission of the sequence finds the clock after \<open>expires\<close>: whatever is flushed
  is flushed for its size.
\<close>

fun calm :: "'d submission list \<Rightarrow> 'd Queue \<Rightarrow> bool" where
  "calm [] q = True"
| "calm (s # rest) q =
     (\<not> After (fst s) (expires q) \<and>
      calm rest (st (Append (fst s) (fst (snd s)) (payloadOf s) q)))"

subsection \<open>Close\<close>

text \<open>
  \<open>Close\<close> in its parts. \<open>CloseEnter\<close> is lines 133 to 139: the event, then each
  channel that is not nil is closed; \<open>None\<close> is the panic of closing a closed channel.
  The loop of line 141 reads \<open>activeWork\<close> once per round: \<open>drained\<close> is its exit
  test. \<open>CloseExit\<close> is line 144.
\<close>

definition CloseEnter :: "'d Queue \<Rightarrow> 'd Queue option" where
  "CloseEnter q =
     (let q1 = event ''Buffer Queue: Stopping...'' q in
      if payloadChan q1 = ClosedChan then None
      else
        let q2 = (if payloadChan q1 \<noteq> NilChan then q1\<lparr>payloadChan := ClosedChan\<rparr> else q1) in
        if quitChan q2 = ClosedChan then None
        else Some (if quitChan q2 \<noteq> NilChan then q2\<lparr>quitChan := ClosedChan\<rparr> else q2))"

definition drained :: "'d Queue \<Rightarrow> bool" where
  "drained q = (\<not> 0 < activeWork q)"

definition CloseExit :: "'d Queue \<Rightarrow> 'd Queue" where
  "CloseExit q = event ''Buffer Queue: All Work completed'' q"

subsection \<open>Goroutines\<close>

text \<open>
  Several goroutines share the queue. Each is inside one call, at one of the places
  where another goroutine can run before it goes on:
  \<^item> \<open>Append0 p\<close>: \<open>Append(p)\<close> called, nothing executed; \<open>Append1\<close>: line 115
    done, the condition of line 119 not yet read; \<open>Append2\<close>: the condition was true,
    line 120 not yet reached;
  \<^item> \<open>Run0 ps\<close>: the goroutine of \<open>go q.Run(ps)\<close> exists and has executed nothing;
    \<open>Run1 r\<close>: line 95 done and \<open>Work\<close> called, its result \<open>r\<close> not yet reported;
  \<^item> \<open>Close0\<close>: \<open>Close()\<close> called; \<open>Close1\<close>: in the loop of line 141;
  \<^item> \<open>Returned e\<close>: the call has returned \<open>e\<close>; \<open>Panicked\<close>.
  The age monitor is a caller of \<open>Append(Payload{})\<close>, the intake a caller of
  \<open>Append\<close> and \<open>Close\<close>.

  A step lets one goroutine run to its next such place, at a clock reading. The
  statements between two places run without interruption here: every run of the steps
  is a run of the program (the program has more, since \<open>activeWork++\<close> and the event
  calls are not atomic either).

  Beside the queue and the goroutines, the state lists what has happened: \<open>dispatched\<close>
  holds the batches of the \<open>go q.Run\<close> statements executed so far, \<open>invoked\<close> the
  arguments of the calls of \<open>Work\<close> made so far, both oldest first.
\<close>

datatype 'd thread =
    Append0 "'d Payload" | Append1 | Append2
  | Run0 "'d Payload list" | Run1 int
  | Close0 | Close1
  | Returned "error option"
  | Panicked

record 'd system =
  queue :: "'d Queue"
  threads :: "'d thread list"
  dispatched :: "'d Payload list list"
  invoked :: "'d option list list"

definition step :: "(time \<Rightarrow> string) \<Rightarrow> nat \<times> time \<Rightarrow> 'd system \<Rightarrow> 'd system" where
  "step render e s =
     (let i = fst e; now = snd e; q = queue s; ts = threads s in
      if length ts \<le> i \<or> Panicked \<in> set ts then s
      else
        case ts ! i of
          Append0 p \<Rightarrow> s\<lparr>queue := store p q, threads := ts[i := Append1]\<rparr>
        | Append1 \<Rightarrow> s\<lparr>threads := ts[i := (if due now q then Append2 else Returned None)]\<rparr>
        | Append2 \<Rightarrow>
            s\<lparr>queue := st (flush now q),
              threads := ts[i := Returned None] @ [Run0 (payloadQueue q)],
              dispatched := dispatched s @ [payloadQueue q]\<rparr>
        | Run0 ps \<Rightarrow>
            (case Work q of
               None \<Rightarrow>
                 s\<lparr>threads := ts[i := Returned (Some (ErrorString ''no Work() is passed''))]\<rparr>
             | Some w \<Rightarrow>
                 s\<lparr>queue := RunEnter render now ps q,
                   threads := ts[i := Run1 (w (map Data ps))],
                   invoked := invoked s @ [map Data ps]\<rparr>)
        | Run1 r \<Rightarrow> s\<lparr>queue := RunExit render now r q, threads := ts[i := Returned None]\<rparr>
        | Close0 \<Rightarrow>
            (case CloseEnter q of
               None \<Rightarrow> s\<lparr>threads := ts[i := Panicked]\<rparr>
             | Some q' \<Rightarrow> s\<lparr>queue := q', threads := ts[i := Close1]\<rparr>)
        | Close1 \<Rightarrow>
            (if drained q then s\<lparr>queue := CloseExit q, threads := ts[i := Returned None]\<rparr>
             else s)
        | Returned x \<Rightarrow> s
        | Panicked \<Rightarrow> s)"

text \<open>A schedule: which goroutine runs next, and what the clock reads then.\<close>

fun exec :: "(time \<Rightarrow> string) \<Rightarrow> (nat \<times> time) list \<Rightarrow> 'd system \<Rightarrow> 'd system" where
  "exec render [] s = s"
| "exec render (e # es) s = exec render es (step render e s)"

text \<open>
  Where the payloads are: in a batch handed to \<open>Run\<close>, in the buffer, or in the hands of
  a caller whose \<open>Append\<close> has not stored it yet (a sentinel is never stored).
\<close>

fun unsent :: "'d thread \<Rightarrow> 'd Payload multiset" where
  "unsent (Append0 p) = (if Id p = [] then {#} else {#p#})"
| "unsent t = {#}"

definition accounted :: "'d system \<Rightarrow> 'd Payload multiset" where
  "accounted s =
     mset (concat (dispatched s)) + mset (payloadQueue (queue s))
       + sum_list (map unsent (threads s))"

subsection \<open>Example values\<close>

text \<open>
  A queue as a caller builds it, \<open>Queue{Work: w, EventFeed: f}\<close>: every other field
  has its zero value. The work function reports the size of its batch as its status.
\<close>

definition exWork :: "nat option list \<Rightarrow> int" where
  "exWork ds = int (length ds)"

definition exFeed :: "string \<Rightarrow> unit" where
  "exFeed s = ()"

definition exRnd :: "nat \<Rightarrow> char" where
  "exRnd i = CHR ''x''"

definition exRender :: "time \<Rightarrow> string" where
  "exRender t = Itoa t"

definition exQueue :: "nat Queue" where
  "exQueue =
     \<lparr>Tag = [], MaxSize = 0, MaxAge = 0, Work = Some exWork, EventFeed = Some exFeed,
      payloadQueue = [], payloadChan = NilChan, quitChan = NilChan, expires = 0,
      activeWork = 0, fed = []\<rparr>"

text \<open>The same with thresholds set: \<open>MaxSize = k\<close>, \<open>MaxAge = 10\<close>, expiring at 10 s.\<close>

definition exSized :: "int \<Rightarrow> nat Queue" where
  "exSized k = exQueue\<lparr>MaxSize := k, MaxAge := 10, expires := 10000000000\<rparr>"

definition pl :: "string \<Rightarrow> nat Payload" where
  "pl s = \<lparr>Id = s, Data = Some (length s)\<rparr>"

text \<open>Four submissions in order, at clock readings before the expiry.\<close>

definition exABCD :: "nat submission list" where
  "exABCD = [(1, 2, pl ''A''), (3, 4, pl ''B''), (5, 6, pl ''C''), (7, 8, pl ''D'')]"

text \<open>Two goroutines, each about to call \<open>Append\<close>, on an empty queue of size 2.\<close>

definition exRace :: "nat system" where
  "exRace =
     \<lparr>queue = exSized 2, threads = [Append0 (pl ''A''), Append0 (pl ''B'')],
      dispatched = [], invoked = []\<rparr>"

text \<open>One goroutine about to call \<open>Append\<close>, one about to call \<open>Close\<close>, size 1.\<close>

definition exClosing :: "nat system" where
  "exClosing =
     \<lparr>queue = exSized 1, threads = [Append0 (pl ''A''), Close0],
      dispatched = [], invoked = []\<rparr>"

text \<open>A call of \<open>Close\<close>, and the age monitor's call \<open>Append(Payload{})\<close> of line 52.\<close>

definition exLate :: "nat system" where
  "exLate =
     \<lparr>queue = exSized 5, threads = [Close0, Append0 zeroPayload],
      dispatched = [], invoked = []\<rparr>"

section \<open>Properties\<close>

subsection \<open>Simple facts\<close>

lemmas ex_defs = exSized_def exQueue_def pl_def payloadOf_def exWork_def zeroPayload_def

lemmas op_defs = Append_def store_def due_def flush_def event_def After_def Let_def

lemma seconds_exact:
  "- 9223372036 \<le> n \<Longrightarrow> n \<le> 9223372036 \<Longrightarrow> seconds n = n * 1000000000"
  unfolding seconds_def by simp

lemma event_without_feed: "EventFeed q = None \<Longrightarrow> event s q = q"
  by (simp add: event_def)

lemma length_defaultTag: "length (defaultTag rnd n) = n"
  by (simp add: defaultTag_def)

text \<open>
  No statement of queue.go assigns \<open>payloadChan\<close> or \<open>quitChan\<close>: a queue built and used
  through this file has both nil, and then \<open>Close\<close> closes nothing and cannot panic.
\<close>

lemma CloseEnter_nil_channels:
  "payloadChan q = NilChan \<Longrightarrow> quitChan q = NilChan \<Longrightarrow>
   CloseEnter q = Some (event ''Buffer Queue: Stopping...'' q)"
  by (simp add: CloseEnter_def Let_def event_def split: option.splits)

lemma store_fields:
  "MaxSize (store p q) = MaxSize q"
  "MaxAge (store p q) = MaxAge q"
  "expires (store p q) = expires q"
  "activeWork (store p q) = activeWork q"
  "Work (store p q) = Work q"
  "payloadQueue (store p q) = payloadQueue q @ (if Id p = [] then [] else [p])"
  by (auto simp add: store_def event_def split: option.splits)

subsection \<open>Steps and calls\<close>

lemma no_panic_update:
  "Panicked \<notin> set ts \<Longrightarrow> t \<noteq> Panicked \<Longrightarrow> Panicked \<notin> set (ts[i := t])"
  by (auto dest: set_update_subset_insert [THEN subsetD])

lemma step_Append0:
  assumes "i < length (threads s)" "Panicked \<notin> set (threads s)" "threads s ! i = Append0 p"
  shows "step render (i, t) s =
           s\<lparr>queue := store p (queue s), threads := (threads s)[i := Append1]\<rparr>"
  using assms by (simp add: step_def Let_def)

lemma step_Append1:
  assumes "i < length (threads s)" "Panicked \<notin> set (threads s)" "threads s ! i = Append1"
  shows "step render (i, now) s =
           s\<lparr>threads := (threads s)[i := (if due now (queue s) then Append2
                                            else Returned None)]\<rparr>"
  using assms by (simp add: step_def Let_def)

lemma step_Append2:
  assumes "i < length (threads s)" "Panicked \<notin> set (threads s)" "threads s ! i = Append2"
  shows "step render (i, now) s =
           s\<lparr>queue := st (flush now (queue s)),
             threads := (threads s)[i := Returned None] @ [Run0 (payloadQueue (queue s))],
             dispatched := dispatched s @ [payloadQueue (queue s)]\<rparr>"
  using assms by (simp add: step_def Let_def)

lemma step_Returned:
  assumes "threads s ! i = Returned x"
  shows "step render (i, now) s = s"
  using assms by (simp add: step_def Let_def)

lemma step_Run0:
  assumes "i < length (threads s)" "Panicked \<notin> set (threads s)" "threads s ! i = Run0 ps"
    and "Work (queue s) = Some w"
  shows "step render (i, now) s =
           s\<lparr>queue := RunEnter render now ps (queue s),
             threads := (threads s)[i := Run1 (w (map Data ps))],
             invoked := invoked s @ [map Data ps]\<rparr>"
  using assms by (simp add: step_def Let_def)

lemma step_Run0_nil:
  assumes "i < length (threads s)" "Panicked \<notin> set (threads s)" "threads s ! i = Run0 ps"
    and "Work (queue s) = None"
  shows "step render (i, now) s =
           s\<lparr>threads := (threads s)[i := Returned (Some (ErrorString ''no Work() is passed''))]\<rparr>"
  using assms by (simp add: step_def Let_def)

lemma step_Run1:
  assumes "i < length (threads s)" "Panicked \<notin> set (threads s)" "threads s ! i = Run1 r"
  shows "step render (i, now) s =
           s\<lparr>queue := RunExit render now r (queue s),
             threads := (threads s)[i := Returned None]\<rparr>"
  using assms by (simp add: step_def Let_def)

text \<open>
  The functions \<open>Append\<close> and \<open>Run\<close> are the steps of one goroutine with no other
  goroutine in between.
\<close>

lemma Append_is_its_steps:
  assumes "i < length (threads s)" "Panicked \<notin> set (threads s)" "threads s ! i = Append0 p"
  shows "queue (exec render [(i, t), (i, now), (i, now')] s) = st (Append now now' p (queue s))"
proof -
  let ?s1 = "s\<lparr>queue := store p (queue s), threads := (threads s)[i := Append1]\<rparr>"
  let ?s2 = "s\<lparr>queue := store p (queue s),
               threads := (threads s)[i := (if due now (store p (queue s)) then Append2
                                            else Returned None)]\<rparr>"
  have 1: "step render (i, t) s = ?s1" by (rule step_Append0 [OF assms])
  have 2: "step render (i, now) ?s1 = ?s2"
    using step_Append1 [of i ?s1 render now] assms(1,2) by (simp add: no_panic_update)
  show ?thesis
  proof (cases "due now (store p (queue s))")
    case True
    have "queue (step render (i, now') ?s2) = st (flush now' (store p (queue s)))"
      using step_Append2 [of i ?s2 render now'] assms(1,2) True by (simp add: no_panic_update)
    then show ?thesis using True by (simp add: 1 2 Append_def)
  next
    case False
    have "step render (i, now') ?s2 = ?s2"
      using step_Returned [of ?s2 i None] assms(1) False by simp
    then show ?thesis using False by (simp add: 1 2 Append_def)
  qed
qed

lemma Run_is_its_steps:
  assumes "i < length (threads s)" "Panicked \<notin> set (threads s)" "threads s ! i = Run0 ps"
  shows "queue (exec render [(i, now), (i, now')] s) = st (Run render now now' ps (queue s))"
proof (cases "Work (queue s)")
  case None
  let ?s1 = "s\<lparr>threads := (threads s)[i := Returned (Some (ErrorString ''no Work() is passed''))]\<rparr>"
  have 1: "step render (i, now) s = ?s1" by (rule step_Run0_nil [OF assms None])
  have 2: "step render (i, now') ?s1 = ?s1"
    using step_Returned [of ?s1 i] assms(1) by simp
  show ?thesis using None by (simp add: 1 2 Run_def)
next
  case (Some w)
  let ?s1 = "s\<lparr>queue := RunEnter render now ps (queue s),
               threads := (threads s)[i := Run1 (w (map Data ps))],
               invoked := invoked s @ [map Data ps]\<rparr>"
  have 1: "step render (i, now) s = ?s1" by (rule step_Run0 [OF assms Some])
  have 2: "queue (step render (i, now') ?s1) =
             RunExit render now' (w (map Data ps)) (RunEnter render now ps (queue s))"
    using step_Run1 [of i ?s1 "w (map Data ps)" render now'] assms(1,2)
    by (simp add: no_panic_update)
  show ?thesis using Some by (simp add: 1 2 Run_def)
qed

subsection \<open>No payload is lost or duplicated by a step\<close>

text \<open>
  Whatever the schedule, every payload stays in exactly one place: the multiset of the
  payloads in dispatched batches, in the buffer and with callers that have not stored
  theirs yet never changes. The buffer is only written under the mutex (lines 112 and
  121 to 124), so this does not depend on how finely the rest is interleaved, nor on
  which way the unlocked test of line 119 goes.
\<close>

lemma sum_list_map_update:
  fixes f :: "'a \<Rightarrow> 'b multiset"
  shows "i < length ts \<Longrightarrow>
         sum_list (map f (ts[i := x])) + f (ts ! i) = sum_list (map f ts) + f x"
proof (induction ts arbitrary: i)
  case Nil
  then show ?case by simp
next
  case (Cons t ts)
  show ?case
  proof (cases i)
    case 0
    then show ?thesis by simp
  next
    case (Suc j)
    then have "sum_list (map f (ts[j := x])) + f (ts ! j) = sum_list (map f ts) + f x"
      using Cons.prems by (intro Cons.IH) simp
    then show ?thesis using Suc by (simp add: ac_simps)
  qed
qed

lemma unsent_update:
  assumes "i < length ts" "unsent x = {#}"
  shows "sum_list (map unsent (ts[i := x])) + unsent (ts ! i) = sum_list (map unsent ts)"
  using sum_list_map_update [OF assms(1), of unsent x] assms(2) by simp

lemma payloadQueue_event: "payloadQueue (event m q) = payloadQueue q"
  by (simp add: event_def split: option.splits)

lemma payloadQueue_CloseEnter: "CloseEnter q = Some q' \<Longrightarrow> payloadQueue q' = payloadQueue q"
  by (auto simp add: CloseEnter_def Let_def payloadQueue_event split: if_splits)

lemma accounted_step: "accounted (step render e s) = accounted s"
proof (cases "length (threads s) \<le> fst e \<or> Panicked \<in> set (threads s)")
  case True
  then show ?thesis by (simp add: step_def Let_def)
next
  case False
  then have i: "fst e < length (threads s)" by simp
  show ?thesis
  proof (cases "threads s ! fst e")
    case (Append0 p)
    have "sum_list (map unsent ((threads s)[fst e := Append1])) + unsent (Append0 p)
            = sum_list (map unsent (threads s))"
      using unsent_update [OF i, of Append1] Append0 by simp
    then show ?thesis
      using False Append0
      by (auto simp add: step_def Let_def accounted_def store_def payloadQueue_event)
  next
    case Append1
    have "sum_list (map unsent ((threads s)[fst e := x])) = sum_list (map unsent (threads s))"
      if "unsent x = {#}" for x
      using unsent_update [OF i that] Append1 by simp
    then show ?thesis
      using False Append1 by (simp add: step_def Let_def accounted_def)
  next
    case Append2
    have "sum_list (map unsent ((threads s)[fst e := Returned None])) = sum_list (map unsent (threads s))"
      using unsent_update [OF i, of "Returned None"] Append2 by simp
    then show ?thesis
      using False Append2 by (simp add: step_def Let_def accounted_def flush_def)
  next
    case (Run0 ps)
    have "sum_list (map unsent ((threads s)[fst e := x])) = sum_list (map unsent (threads s))"
      if "unsent x = {#}" for x
      using unsent_update [OF i that] Run0 by simp
    then show ?thesis
      using False Run0
      by (simp add: step_def Let_def accounted_def RunEnter_def payloadQueue_event split: option.splits)
  next
    case (Run1 r)
    have "sum_list (map unsent ((threads s)[fst e := Returned None])) = sum_list (map unsent (threads s))"
      using unsent_update [OF i, of "Returned None"] Run1 by simp
    then show ?thesis
      using False Run1
      by (simp add: step_def Let_def accounted_def RunExit_def payloadQueue_event)
  next
    case Close0
    have "sum_list (map unsent ((threads s)[fst e := x])) = sum_list (map unsent (threads s))"
      if "unsent x = {#}" for x
      using unsent_update [OF i that] Close0 by simp
    then show ?thesis
      using False Close0
      by (auto simp add: step_def Let_def accounted_def payloadQueue_CloseEnter split: option.splits)
  next
    case Close1
    have "sum_list (map unsent ((threads s)[fst e := Returned None])) = sum_list (map unsent (threads s))"
      using unsent_update [OF i, of "Returned None"] Close1 by simp
    then show ?thesis
      using False Close1
      by (simp add: step_def Let_def accounted_def CloseExit_def payloadQueue_event)
  next
    case (Returned x)
    then show ?thesis using False by (simp add: step_def Let_def)
  next
    case Panicked
    then show ?thesis using False by (simp add: step_def Let_def)
  qed
qed

lemma accounted_exec: "accounted (exec render es s) = accounted s"
  by (induction es arbitrary: s) (simp_all add: accounted_step)

subsection \<open>Submissions in sequence\<close>

lemma Appends_append:
  "Appends (xs @ ys) q =
     (fst (Appends ys (fst (Appends xs q))),
      snd (Appends xs q) @ snd (Appends ys (fst (Appends xs q))))"
  by (induction xs arbitrary: q) (simp_all add: Let_def)

lemma calm_append: "calm (xs @ ys) q = (calm xs q \<and> calm ys (fst (Appends xs q)))"
  by (induction xs arbitrary: q) (simp_all add: Let_def)

text \<open>One submission that leaves the buffer short of the threshold, and one that fills it.\<close>

lemma Append_below:
  assumes "Id p \<noteq> []" "int (length (payloadQueue q)) + 1 < MaxSize q"
    and "\<not> After now (expires q)"
  shows "spawned (Append now now' p q) = []"
    and "payloadQueue (st (Append now now' p q)) = payloadQueue q @ [p]"
    and "MaxSize (st (Append now now' p q)) = MaxSize q"
    and "expires (st (Append now now' p q)) = expires q"
  using assms by (simp_all add: Append_def due_def store_fields Let_def)

lemma Append_reach:
  assumes "Id p \<noteq> []" "int (length (payloadQueue q)) + 1 = MaxSize q"
  shows "spawned (Append now now' p q) = [RunTask (payloadQueue q @ [p])]"
    and "payloadQueue (st (Append now now' p q)) = []"
    and "MaxSize (st (Append now now' p q)) = MaxSize q"
  using assms by (simp_all add: Append_def due_def store_fields Let_def flush_def)

lemma Appends_below:
  assumes "\<forall>s \<in> set subs. Id (payloadOf s) \<noteq> []"
    and "int (length (payloadQueue q)) + int (length subs) < MaxSize q"
    and "calm subs q"
  shows "snd (Appends subs q) = [] \<and>
         payloadQueue (fst (Appends subs q)) = payloadQueue q @ map payloadOf subs \<and>
         MaxSize (fst (Appends subs q)) = MaxSize q"
  using assms
proof (induction subs arbitrary: q)
  case Nil
  then show ?case by simp
next
  case (Cons s rest)
  let ?r = "Append (fst s) (fst (snd s)) (payloadOf s) q"
  have id: "Id (payloadOf s) \<noteq> []" using Cons.prems(1) by simp
  have lt: "int (length (payloadQueue q)) + 1 < MaxSize q" using Cons.prems(2) by simp
  have na: "\<not> After (fst s) (expires q)" using Cons.prems(3) by simp
  note one = Append_below [OF id lt na, of "fst (snd s)"]
  have "snd (Appends rest (st ?r)) = [] \<and>
        payloadQueue (fst (Appends rest (st ?r))) = payloadQueue (st ?r) @ map payloadOf rest \<and>
        MaxSize (fst (Appends rest (st ?r))) = MaxSize (st ?r)"
    using Cons.prems by (intro Cons.IH) (simp_all add: one)
  then show ?case by (simp add: Let_def one)
qed

lemma Appends_reach:
  assumes "\<forall>s \<in> set subs. Id (payloadOf s) \<noteq> []"
    and "int (length (payloadQueue q)) + int (length subs) = MaxSize q"
    and "subs \<noteq> []"
    and "calm subs q"
  shows "snd (Appends subs q) = [payloadQueue q @ map payloadOf subs] \<and>
         payloadQueue (fst (Appends subs q)) = [] \<and>
         MaxSize (fst (Appends subs q)) = MaxSize q"
  using assms
proof (induction subs arbitrary: q)
  case Nil
  then show ?case by simp
next
  case (Cons s rest)
  let ?r = "Append (fst s) (fst (snd s)) (payloadOf s) q"
  have id: "Id (payloadOf s) \<noteq> []" using Cons.prems(1) by simp
  show ?case
  proof (cases "rest = []")
    case True
    then have eq: "int (length (payloadQueue q)) + 1 = MaxSize q" using Cons.prems(2) by simp
    show ?thesis using True by (simp add: Let_def Append_reach [OF id eq])
  next
    case False
    have lt: "int (length (payloadQueue q)) + 1 < MaxSize q"
      using Cons.prems(2) False by (cases rest) simp_all
    have na: "\<not> After (fst s) (expires q)" using Cons.prems(4) by simp
    note one = Append_below [OF id lt na, of "fst (snd s)"]
    have "snd (Appends rest (st ?r)) = [payloadQueue (st ?r) @ map payloadOf rest] \<and>
          payloadQueue (fst (Appends rest (st ?r))) = [] \<and>
          MaxSize (fst (Appends rest (st ?r))) = MaxSize (st ?r)"
      using Cons.prems False by (intro Cons.IH) (simp_all add: one)
    then show ?thesis by (simp add: Let_def one)
  qed
qed

subsection \<open>What a call of Append does\<close>

text \<open>
  \<open>Append\<close> starts a \<open>Run\<close> goroutine if and only if, after the payload is stored (a
  sentinel is not), the buffer holds at least \<open>MaxSize\<close> payloads or the clock is after
  \<open>expires\<close>. Then the batch is the whole buffer, the buffer is empty afterwards and
  \<open>expires\<close> is the clock of line 126 plus the duration computed from \<open>MaxAge\<close>, which is
  \<open>MaxAge\<close> seconds when the product fits 64 bits. Otherwise the buffer is the old one
  with the payload appended and \<open>expires\<close> is unchanged. \<open>activeWork\<close> is not written
  by \<open>Append\<close>; \<open>RunEnter\<close> adds one to it.
\<close>

lemma Append_flush_effect:
  "(spawned (Append now now' p q) \<noteq> []) =
     (MaxSize q \<le> Size (store p q) \<or> After now (expires q)) \<and>
   payloadQueue (store p q) = payloadQueue q @ (if Id p = [] then [] else [p]) \<and>
   spawned (Append now now' p q) =
     (if MaxSize q \<le> Size (store p q) \<or> After now (expires q)
      then [RunTask (payloadQueue (store p q))] else []) \<and>
   payloadQueue (st (Append now now' p q)) =
     (if MaxSize q \<le> Size (store p q) \<or> After now (expires q)
      then [] else payloadQueue (store p q)) \<and>
   expires (st (Append now now' p q)) =
     (if MaxSize q \<le> Size (store p q) \<or> After now (expires q)
      then now' + seconds (MaxAge q) else expires q) \<and>
   (- 9223372036 \<le> MaxAge q \<and> MaxAge q \<le> 9223372036 \<longrightarrow>
      seconds (MaxAge q) = MaxAge q * 1000000000) \<and>
   activeWork (st (Append now now' p q)) = activeWork q \<and>
   activeWork (RunEnter render t ps q) = activeWork q + 1"
  by (simp add: Append_def flush_def due_def Size_def store_fields RunEnter_def event_def
      Let_def seconds_exact split: option.splits)

section \<open>The claims\<close>

text \<open>
  C1. In \<open>Append\<close> the flush condition and the extraction are said to run in the same
  critical section as the append, so that concurrent callers never lose or duplicate an
  item. The source releases the mutex after the append (line 113), reads the condition
  with no lock held (line 119) and takes the mutex again for the extraction (line 120).
  Here two callers on an empty queue of size 2 each append, then each finds the buffer
  full, then each extracts: two \<open>Run\<close> goroutines are started, the second on an empty
  batch. Were the three parts one critical section, either order of the two calls
  would start exactly one.
\<close>

theorem Append_two_callers_both_flush:
  "dispatched (exec exRender [(0, 1), (1, 2), (0, 3), (1, 4), (0, 5), (1, 6)] exRace) =
     [[pl ''A'', pl ''B''], []] \<and>
   threads (exec exRender [(0, 1), (1, 2), (0, 3), (1, 4), (0, 5), (1, 6)] exRace) =
     [Returned None, Returned None, Run0 [pl ''A'', pl ''B''], Run0 []] \<and>
   snd (Appends [(1, 2, pl ''A''), (3, 4, pl ''B'')] (exSized 2)) = [[pl ''A'', pl ''B'']] \<and>
   snd (Appends [(1, 2, pl ''B''), (3, 4, pl ''A'')] (exSized 2)) = [[pl ''B'', pl ''A'']]"
  by (simp add: exRace_def step_def ex_defs op_defs seconds_def)

text \<open>
  C2. A caller submits payloads with non-empty identifiers one after another to an empty
  queue whose \<open>MaxSize\<close> is \<open>k\<close>, at least 1, and no submission finds the clock after
  \<open>expires\<close>. Once \<open>k\<close> or more have been submitted, the first batch handed to \<open>Run\<close>
  is the first \<open>k\<close> payloads in order; with fewer than \<open>2k\<close> submissions it is the only
  batch and the others are still in the buffer, in order.
\<close>

theorem Appends_first_batch:
  assumes size: "1 \<le> MaxSize q"
    and empty: "payloadQueue q = []"
    and ids: "\<forall>s \<in> set subs. Id (payloadOf s) \<noteq> []"
    and quiet: "calm subs q"
    and enough: "MaxSize q \<le> int (length subs)"
  shows "snd (Appends subs q) \<noteq> [] \<and>
         hd (snd (Appends subs q)) = take (nat (MaxSize q)) (map payloadOf subs) \<and>
         (int (length subs) < 2 * MaxSize q \<longrightarrow>
            snd (Appends subs q) = [take (nat (MaxSize q)) (map payloadOf subs)] \<and>
            payloadQueue (fst (Appends subs q)) = drop (nat (MaxSize q)) (map payloadOf subs))"
proof -
  let ?k = "nat (MaxSize q)"
  let ?xs = "take ?k subs" and ?ys = "drop ?k subs"
  have lenx: "int (length ?xs) = MaxSize q" using size enough by simp
  have idx: "\<forall>s \<in> set ?xs. Id (payloadOf s) \<noteq> []" using ids by (meson in_set_takeD)
  have idy: "\<forall>s \<in> set ?ys. Id (payloadOf s) \<noteq> []" using ids by (meson in_set_dropD)
  have calms: "calm ?xs q \<and> calm ?ys (fst (Appends ?xs q))"
    using quiet calm_append [of ?xs ?ys q] by simp
  have ne: "?xs \<noteq> []" using size enough by auto
  have first: "snd (Appends ?xs q) = [map payloadOf ?xs] \<and>
               payloadQueue (fst (Appends ?xs q)) = [] \<and>
               MaxSize (fst (Appends ?xs q)) = MaxSize q"
    using Appends_reach [OF idx _ ne] calms lenx empty by simp
  have whole: "Appends subs q =
                 (fst (Appends ?ys (fst (Appends ?xs q))),
                  snd (Appends ?xs q) @ snd (Appends ?ys (fst (Appends ?xs q))))"
    using Appends_append [of ?xs ?ys q] by simp
  have a: "snd (Appends subs q) = map payloadOf ?xs # snd (Appends ?ys (fst (Appends ?xs q)))"
    by (simp add: whole first)
  have b: "snd (Appends ?ys (fst (Appends ?xs q))) = [] \<and>
           payloadQueue (fst (Appends ?ys (fst (Appends ?xs q)))) = map payloadOf ?ys"
    if "int (length subs) < 2 * MaxSize q"
    using Appends_below [OF idy _ conjunct2 [OF calms]] first that size by simp
  show ?thesis
    using a b by (simp add: whole take_map drop_map)
qed

text \<open>
  The example of the claim: \<open>MaxSize = 3\<close>, submissions A, B, C, D. The only batch is
  A, B, C, and D is in the buffer.
\<close>

theorem Appends_first_batch_witness:
  "snd (Appends exABCD (exSized 3)) = [[pl ''A'', pl ''B'', pl ''C'']] \<and>
   hd (snd (Appends exABCD (exSized 3))) = [pl ''A'', pl ''B'', pl ''C''] \<and>
   payloadQueue (fst (Appends exABCD (exSized 3))) = [pl ''D'']"
proof -
  have 1: "1 \<le> MaxSize (exSized 3)" by (simp add: ex_defs)
  have 2: "payloadQueue (exSized 3) = []" by (simp add: ex_defs)
  have 3: "\<forall>s \<in> set exABCD. Id (payloadOf s) \<noteq> []" by (simp add: exABCD_def ex_defs)
  have 4: "calm exABCD (exSized 3)" by (simp add: exABCD_def ex_defs op_defs seconds_def)
  have 5: "MaxSize (exSized 3) \<le> int (length exABCD)" by (simp add: exABCD_def ex_defs)
  have 6: "int (length exABCD) < 2 * MaxSize (exSized 3)" by (simp add: exABCD_def ex_defs)
  have 7: "nat (MaxSize (exSized 3)) = 3" by (simp add: ex_defs)
  show ?thesis
    using Appends_first_batch [OF 1 2 3 4 5] 6 7 by (simp add: exABCD_def payloadOf_def)
qed

text \<open>
  C3. \<open>Append\<close> is said to flush exactly when the buffer has reached \<open>MaxSize\<close> or the
  clock is after \<open>expires\<close>, and then to swap the buffer for an empty one, to increment
  \<open>activeWork\<close> at that point and to reset \<open>expires\<close>. The source does all of it but the
  increment: \<open>Append\<close> never writes \<open>activeWork\<close>, which only the goroutine of \<open>Run\<close>
  increments, when it reaches line 95. On a queue of size 1 the call flushes the payload
  it has just stored and starts \<open>Run\<close>; when it returns \<open>activeWork\<close> is still 0, and the
  exit test of the loop of \<open>Close\<close> holds although a work routine has not completed.
\<close>

theorem Append_leaves_activeWork:
  "spawned (Append 1 2 (pl ''A'') (exSized 1)) = [RunTask [pl ''A'']] \<and>
   payloadQueue (st (Append 1 2 (pl ''A'') (exSized 1))) = [] \<and>
   activeWork (exSized 1) = 0 \<and>
   activeWork (st (Append 1 2 (pl ''A'') (exSized 1))) = 0 \<and>
   activeWork (st (Append 1 2 (pl ''A'') (exSized 1))) \<noteq> activeWork (exSized 1) + 1 \<and>
   drained (st (Append 1 2 (pl ''A'') (exSized 1)))"
  by (simp add: ex_defs op_defs drained_def)

text \<open>
  C4. After \<open>Close\<close> returns, \<open>activeWork\<close> is said to be zero, no further call of the
  work function to start, and every dispatch started before or during the drain to be
  complete. Two runs of the source show otherwise.

  First run: \<open>Append\<close> flushes and starts the goroutine of \<open>Run\<close>; before that
  goroutine executes line 95, \<open>Close\<close> reads \<open>activeWork\<close> as 0 and returns; then
  \<open>Run\<close> increments \<open>activeWork\<close> and calls \<open>Work\<close>.

  Second run: \<open>Close\<close> returns; later the age monitor, which no statement stops, finds
  the clock after \<open>expires\<close> and calls \<open>Append(Payload{})\<close>, whose flush starts
  \<open>Run\<close> on the empty batch, which calls \<open>Work\<close>.
\<close>

theorem Close_returns_with_Run_pending:
  "threads (exec exRender [(0, 1), (0, 2), (0, 3), (1, 4), (1, 5)] exClosing) =
     [Returned None, Returned None, Run0 [pl ''A'']] \<and>
   dispatched (exec exRender [(0, 1), (0, 2), (0, 3), (1, 4), (1, 5)] exClosing) =
     [[pl ''A'']] \<and>
   invoked (exec exRender [(0, 1), (0, 2), (0, 3), (1, 4), (1, 5)] exClosing) = [] \<and>
   activeWork (queue (exec exRender [(0, 1), (0, 2), (0, 3), (1, 4), (1, 5)] exClosing)) = 0 \<and>
   invoked (exec exRender [(0, 1), (0, 2), (0, 3), (1, 4), (1, 5), (2, 6)] exClosing) =
     [[Some 1]] \<and>
   activeWork (queue (exec exRender [(0, 1), (0, 2), (0, 3), (1, 4), (1, 5), (2, 6)] exClosing)) = 1 \<and>
   threads (exec exRender [(0, 1), (0, 2)] exLate) = [Returned None, Append0 zeroPayload] \<and>
   invoked (exec exRender [(0, 1), (0, 2)] exLate) = [] \<and>
   invoked (exec exRender
      [(0, 1), (0, 2), (1, 12000000000), (1, 12000000001), (1, 12000000002), (2, 12000000003)]
      exLate) = [[]] \<and>
   activeWork (queue (exec exRender
      [(0, 1), (0, 2), (1, 12000000000), (1, 12000000001), (1, 12000000002), (2, 12000000003)]
      exLate)) = 1"
  by (simp add: exClosing_def exLate_def step_def ex_defs op_defs seconds_def CloseEnter_def
      CloseExit_def drained_def RunEnter_def)

text \<open>
  C5. \<open>Start\<close> returns an error exactly when no work function was supplied, and that is
  the only error of the interface: \<open>Append\<close> always returns nil (\<open>Close\<close> and \<open>Size\<close>
  return no error value), and the error of \<open>Run\<close>, which \<open>Append\<close> discards with its
  \<open>go\<close> statement, has the same cause.
\<close>

theorem Start_error_iff:
  "(err (Start now rnd q) \<noteq> None) = (Work q = None) \<and>
   err (Start now rnd q) =
     (if Work q = None then Some (ErrorString ''the Work function is not supplied'') else None) \<and>
   err (Append t t' p q) = None \<and>
   err (Run render t t' ps q) =
     (if Work q = None then Some (ErrorString ''no Work() is passed'') else None)"
  by (simp add: Start_def Append_def flush_def Run_def Let_def split: option.splits)

theorem Start_error_iff_witness:
  "err (Start 1000 exRnd exQueue) = None \<and>
   err (Start 1000 exRnd (exQueue\<lparr>Work := None\<rparr>)) =
     Some (ErrorString ''the Work function is not supplied'') \<and>
   err (Append 1 2 (pl ''A'') (exQueue\<lparr>Work := None\<rparr>)) = None"
  using Start_error_iff [of 1000 exRnd exQueue 1 2 "pl ''A''" exRender "[]"]
    Start_error_iff [of 1000 exRnd "exQueue\<lparr>Work := None\<rparr>" 1 2 "pl ''A''" exRender "[]"]
  by (simp add: ex_defs)

text \<open>
  C6. \<open>Start\<close> with \<open>MaxSize = 0\<close>, \<open>MaxAge = 0\<close>, \<open>Tag = ""\<close> and a work function:
  afterwards \<open>MaxSize\<close> is 100, \<open>MaxAge\<close> is 10 and the tag is the 12 characters of
  \<open>defaultTag\<close>, so not empty. \<open>Start\<close> calls \<open>event\<close> once for each of the three
  defaulted fields, in this order, and once more to say that the queue has started: an
  event feed, when one is configured, receives exactly these four strings (with none
  configured \<open>event\<close> has nowhere to send them). The first two carry the tag as it
  still was, the empty one.
\<close>

theorem Start_defaults:
  assumes "MaxSize q = 0" "MaxAge q = 0" "Tag q = []" "Work q = Some w"
  shows "err (Start now rnd q) = None \<and>
         MaxSize (st (Start now rnd q)) = 100 \<and>
         MaxAge (st (Start now rnd q)) = 10 \<and>
         Tag (st (Start now rnd q)) = defaultTag rnd 12 \<and>
         length (Tag (st (Start now rnd q))) = 12 \<and>
         Tag (st (Start now rnd q)) \<noteq> [] \<and>
         fed (st (Start now rnd q)) = fed q @
           (if EventFeed q = None then []
            else [''[] MaxSize: Default value of 100 was used'',
                  ''[] MaxAge: Default value of 10 was used'',
                  ''['' @ defaultTag rnd 12 @ ''] Tag: Random value assigned is: ''
                    @ defaultTag rnd 12,
                  ''['' @ defaultTag rnd 12 @ ''] BP Queue: Started''])"
proof -
  have ne: "defaultTag rnd 12 \<noteq> []"
    using length_defaultTag [of rnd 12] by auto
  show ?thesis
    using assms ne
    by (auto simp add: Start_def Let_def event_def length_defaultTag split: option.splits)
qed

theorem Start_defaults_witness:
  "MaxSize (st (Start 1000 exRnd exQueue)) = 100 \<and>
   MaxAge (st (Start 1000 exRnd exQueue)) = 10 \<and>
   Tag (st (Start 1000 exRnd exQueue)) = ''xxxxxxxxxxxx'' \<and>
   fed (st (Start 1000 exRnd exQueue)) =
     [''[] MaxSize: Default value of 100 was used'',
      ''[] MaxAge: Default value of 10 was used'',
      ''[xxxxxxxxxxxx] Tag: Random value assigned is: xxxxxxxxxxxx'',
      ''[xxxxxxxxxxxx] BP Queue: Started'']"
proof -
  have tag: "defaultTag exRnd 12 = ''xxxxxxxxxxxx''"
    by (simp add: defaultTag_def exRnd_def upt_rec)
  show ?thesis
    using Start_defaults [of exQueue exWork 1000 exRnd]
    by (simp add: exQueue_def tag)
qed

text \<open>
  C7. \<open>Start\<close> is said to set \<open>expires\<close> from the \<open>MaxAge\<close> in effect after the
  defaults, 10 seconds when it was unset. Line 29 runs before the defaults of lines 37
  to 40: started at instant 1000 with \<open>MaxAge = 0\<close>, the queue has \<open>MaxAge = 10\<close> and
  \<open>expires = 1000\<close>, the start instant, not the instant 10 seconds later.
\<close>

theorem Start_expires_from_unset_MaxAge:
  "MaxAge exQueue = 0 \<and>
   MaxAge (st (Start 1000 exRnd exQueue)) = 10 \<and>
   expires (st (Start 1000 exRnd exQueue)) = 1000 \<and>
   1000 + seconds (MaxAge (st (Start 1000 exRnd exQueue))) = 10000001000"
  by (simp add: Start_def exQueue_def Let_def event_def seconds_def)

text \<open>
  C8. A payload with the empty identifier is not stored and causes no event: \<open>Append\<close>
  only evaluates the flush condition on the buffer as it is. Without a flush the queue
  is unchanged; with one, the batch is the old buffer, without the sentinel.
\<close>

theorem Append_sentinel:
  assumes "Id p = []"
  shows "st (Append now now' p q) =
           (if due now q then q\<lparr>payloadQueue := [], expires := now' + seconds (MaxAge q)\<rparr>
            else q) \<and>
         spawned (Append now now' p q) = (if due now q then [RunTask (payloadQueue q)] else []) \<and>
         fed (st (Append now now' p q)) = fed q"
  using assms by (simp add: Append_def flush_def store_def)

theorem Append_sentinel_witness:
  "Id (zeroPayload :: nat Payload) = [] \<and>
   st (Append 5 6 zeroPayload (exSized 3\<lparr>payloadQueue := [pl ''A'']\<rparr>)) =
     exSized 3\<lparr>payloadQueue := [pl ''A'']\<rparr> \<and>
   spawned (Append 5 6 zeroPayload (exSized 3\<lparr>payloadQueue := [pl ''A'']\<rparr>)) = [] \<and>
   spawned (Append 12000000000 12000000001 zeroPayload (exSized 3\<lparr>payloadQueue := [pl ''A'']\<rparr>)) =
     [RunTask [pl ''A'']]"
proof -
  have z: "Id (zeroPayload :: nat Payload) = []" by (simp add: zeroPayload_def)
  show ?thesis
    using z Append_sentinel [OF z, of 5 6 "exSized 3\<lparr>payloadQueue := [pl ''A'']\<rparr>"]
      Append_sentinel [OF z, of 12000000000 12000000001 "exSized 3\<lparr>payloadQueue := [pl ''A'']\<rparr>"]
    by (simp add: due_def After_def exSized_def exQueue_def)
qed

text \<open>
  C9. With a work function set, \<open>Run\<close> returns nil whatever status the work function
  reports. The status appears in the second event and nowhere else: the queue after
  \<open>Run\<close> is the queue before it but for what the feed received (nothing is put back in
  the buffer, nothing is started). \<open>RunEnter\<close> adds one to \<open>activeWork\<close> and
  \<open>RunExit\<close> takes one off, for every status, so \<open>activeWork\<close> is back where it was.
\<close>

theorem Run_status_advisory:
  assumes "Work q = Some w"
  shows "err (Run render now now' ps q) = None \<and>
         spawned (Run render now now' ps q) = [] \<and>
         st (Run render now now' ps q) =
           q\<lparr>fed := fed q @
             (if EventFeed q = None then []
              else [''['' @ Tag q @ ''] Batch Push ['' @ Tag q @ '']: Running. Queue Size: ''
                      @ Itoa (int (length ps)) @ '' @ '' @ render now,
                    ''['' @ Tag q @ ''] Batch Push ['' @ Tag q @ '']: Finished. Result Code: ''
                      @ Itoa (w (map Data ps)) @ '' @ '' @ render now'])\<rparr> \<and>
         activeWork (RunEnter render now ps q) = activeWork q + 1 \<and>
         activeWork (RunExit render now' c q') = activeWork q' - 1"
  using assms
  by (auto simp add: Run_def RunEnter_def RunExit_def event_def Let_def split: option.splits)

theorem Run_status_advisory_witness:
  "err (Run exRender 6 7 [pl ''A'', pl ''B''] (exSized 2)) = None \<and>
   activeWork (st (Run exRender 6 7 [pl ''A'', pl ''B''] (exSized 2))) = 0 \<and>
   payloadQueue (st (Run exRender 6 7 [pl ''A'', pl ''B''] (exSized 2))) = [] \<and>
   fed (st (Run exRender 6 7 [pl ''A'', pl ''B''] (exSized 2))) =
     [''[] Batch Push []: Running. Queue Size: 2 @ 6'',
      ''[] Batch Push []: Finished. Result Code: 2 @ 7'']"
proof -
  have w: "Work (exSized 2) = Some exWork" by (simp add: exSized_def exQueue_def)
  have d: "digits 2 = ''2''" "digits 6 = ''6''" "digits 7 = ''7''" by code_simp+
  show ?thesis
    using Run_status_advisory [OF w, of exRender 6 7 "[pl ''A'', pl ''B'']" 2 "exSized 2"]
    by (simp add: exSized_def exQueue_def exWork_def exRender_def Itoa_def d)
qed

text \<open>
  C10. With \<open>MaxSize\<close> at least 1, the buffer is shorter than \<open>MaxSize\<close> whenever a
  call of \<open>Append\<close> has returned, whatever the queue was before: a call that stores the
  payload reaching the threshold empties the buffer itself.
\<close>

theorem Append_below_MaxSize:
  assumes "1 \<le> MaxSize q"
  shows "Size (st (Append now now' p q)) < MaxSize (st (Append now now' p q)) \<and>
         MaxSize (st (Append now now' p q)) = MaxSize q \<and>
         (MaxSize q \<le> Size (store p q) \<longrightarrow> payloadQueue (st (Append now now' p q)) = [])"
  using assms
  by (auto simp add: Append_def flush_def due_def Size_def store_fields Let_def)

theorem Append_below_MaxSize_witness:
  "Size (st (Append 1 2 (pl ''A'') (exSized 2))) = 1 \<and>
   Size (st (Append 3 4 (pl ''B'') (st (Append 1 2 (pl ''A'') (exSized 2))))) = 0 \<and>
   MaxSize (st (Append 3 4 (pl ''B'') (st (Append 1 2 (pl ''A'') (exSized 2))))) = 2"
proof -
  have 1: "1 \<le> MaxSize (exSized 2)" by (simp add: ex_defs)
  have 2: "1 \<le> MaxSize (st (Append 1 2 (pl ''A'') (exSized 2)))"
    using Append_below_MaxSize [OF 1, of 1 2 "pl ''A''"] 1 by simp
  show ?thesis
    using Append_below_MaxSize [OF 1, of 1 2 "pl ''A''"]
      Append_below_MaxSize [OF 2, of 3 4 "pl ''B''"]
    by (simp add: ex_defs op_defs Size_def)
qed

end
